theory Spec2Isabelle
  imports Complex_Main "HOL-Library.Sublist"
begin

section \<open>Strings\<close>

text \<open>
  Python strings are modelled as \<^typ>\<open>string\<close>, one \<^typ>\<open>char\<close> per character, so
  that \<^term>\<open>length s\<close> is \<open>len(s)\<close>. \<open>str.lower()\<close> is modelled on the ASCII
  letters; every other character is left as it is.
\<close>

definition lower_char :: "char \<Rightarrow> char" where
  "lower_char c =
     (case map_of (zip ''ABCDEFGHIJKLMNOPQRSTUVWXYZ'' ''abcdefghijklmnopqrstuvwxyz'') c of
        None \<Rightarrow> c
      | Some d \<Rightarrow> d)"

definition lower :: "string \<Rightarrow> string" where
  "lower s = map lower_char s"

text \<open>\<open>s.startswith(w)\<close> and the substring test \<open>w in s\<close>.\<close>

fun startswith :: "string \<Rightarrow> string \<Rightarrow> bool" where
  "startswith s [] = True"
| "startswith [] (c # w) = False"
| "startswith (a # s) (c # w) = (a = c \<and> startswith s w)"

fun str_in :: "string \<Rightarrow> string \<Rightarrow> bool" where
  "str_in w [] = (w = [])"
| "str_in w (a # s) = (startswith (a # s) w \<or> str_in w s)"

text \<open>\<open>any(word in s for word in words)\<close>\<close>

definition any_in :: "string list \<Rightarrow> string \<Rightarrow> bool" where
  "any_in words s = list_ex (\<lambda>word. str_in word s) words"

section \<open>Document classifier and page estimator\<close>

definition detect_document_type :: "string \<Rightarrow> string \<Rightarrow> string" where
  "detect_document_type filename content =
     (let name = lower filename;
          content_lower = lower content
      in if any_in [''policy'', ''procedure'', ''rule''] name then ''Policy''
         else if any_in [''handbook'', ''manual'', ''guide''] name then ''Handbook''
         else if any_in [''finance'', ''financial'', ''budget'', ''revenue''] name then ''Finance''
         else if any_in [''loan'', ''credit'', ''lending''] content_lower then ''Policy''
         else if any_in [''onboard'', ''training'', ''employee''] content_lower then ''Handbook''
         else ''Document'')"

definition estimate_pages :: "string \<Rightarrow> int" where
  "estimate_pages content = max 1 (int (length content) div 2000)"

section \<open>Knowledge-gap detector\<close>

definition gap_indicators :: "string list" where
  "gap_indicators =
     [''don't have information'', ''not found'', ''no information'', ''unable to find'']"

definition detect_knowledge_gap :: "string \<Rightarrow> string \<Rightarrow> bool \<times> string list" where
  "detect_knowledge_gap question answer =
     (let question_lower = lower question;
          answer_lower = lower answer;
          has_gap = any_in gap_indicators answer_lower;
          suggestions =
            (if any_in [''loan'', ''credit'', ''lending''] question_lower
               then [''Loan Policy Document'', ''Credit Guidelines'', ''Lending Procedures'']
             else if any_in [''onboard'', ''training'', ''employee''] question_lower
               then [''Employee Handbook'', ''Training Manual'', ''HR Policies'']
             else if any_in [''finance'', ''revenue'', ''cac'', ''budget''] question_lower
               then [''Financial Reports'', ''Budget Documents'', ''Growth Metrics'']
             else if any_in [''customer'', ''client'', ''acquisition''] question_lower
               then [''Customer Data'', ''Sales Reports'', ''Marketing Analytics'']
             else [''Business Documents'', ''Policy Manual'', ''Operational Guidelines''])
      in (has_gap, suggestions))"

section \<open>Data model\<close>

text \<open>
  The metadata dictionary attached to an indexed document and carried by every node
  retrieved from it. The source reads it with \<open>metadata.get(key, default)\<close>, so each
  key may be absent.
\<close>

record metadata =
  md_filename :: "string option"
  md_document_type :: "string option"
  md_tenant_id :: "string option"
  md_doc_id :: "string option"
  md_pages :: "int option"

text \<open>\<open>Document(text=..., metadata=...)\<close>\<close>

record document =
  doc_text :: string
  doc_metadata :: metadata

text \<open>
  A retrieved node: \<open>node.metadata\<close>, \<open>node.text\<close> and the attribute \<open>node.score\<close>.
  The attribute is absent (\<open>hasattr(node, 'score')\<close> is false), or present with the
  value \<open>None\<close> (a node that retrieval gave no score), or present with a number.
\<close>

datatype score_attr = NoScoreAttr | ScoreNone | Score real

record node =
  node_metadata :: metadata
  node_text :: string
  node_score :: score_attr

record citation =
  document :: string
  page :: int
  document_type :: string
  cite_confidence :: real

text \<open>
  The field \<open>confidence: float\<close> of \<open>Citation\<close> is validated when a citation is built: the
  constructor raises a validation error when it is given \<open>None\<close>.
\<close>

datatype validation_error = ConfidenceNone

record query_response =
  answer :: string
  citations :: "citation list"
  confidence :: real
  has_knowledge_gap :: bool
  suggestions :: "string list option"

record document_info =
  info_id :: string
  info_name :: string
  info_type :: string
  info_pages :: int
  info_status :: string

text \<open>What \<open>query_engine.query(question)\<close> returns: \<open>response.response\<close> and
  \<open>response.source_nodes\<close>.\<close>

record engine_response =
  response :: string
  source_nodes :: "node list"

text \<open>
  The collaborators outside the repository, taken as parameters: the MD5 hex digest of
  the UTF-8 encoding of a string, the empty index \<open>VectorStoreIndex([])\<close>, the index's
  \<open>insert\<close> (the message of the exception it raised, if any, and the index object after
  the call), \<open>as_query_engine(similarity_top_k=3, response_mode="compact").query\<close>
  (\<open>Inl\<close> the message of the exception raised), and the text \<open>str(e)\<close> of a validation
  error.
\<close>

record 'ix env =
  md5_hexdigest :: "string \<Rightarrow> string"
  empty_index :: 'ix
  index_insert :: "'ix \<Rightarrow> document \<Rightarrow> string option \<times> 'ix"
  query_engine :: "'ix \<Rightarrow> string \<Rightarrow> string + engine_response"
  validation_message :: "validation_error \<Rightarrow> string"

text \<open>The two dictionaries of \<open>ChatService\<close>.\<close>

record 'ix service =
  tenant_indices :: "string \<rightharpoonup> 'ix"
  tenant_documents :: "string \<rightharpoonup> document_info list"

definition init :: "'ix service" where
  "init = \<lparr>tenant_indices = Map.empty, tenant_documents = Map.empty\<rparr>"

datatype exn = KeyError string | ProviderFailure string

section \<open>Ingestion\<close>

text \<open>The string \<open>f"{tenant_id}_{filename}"\<close> that is hashed, and the document id: the
  first 8 characters of its hex digest.\<close>

definition doc_key :: "string \<Rightarrow> string \<Rightarrow> string" where
  "doc_key tenant_id filename = tenant_id @ ''_'' @ filename"

definition make_doc_id :: "'ix env \<Rightarrow> string \<Rightarrow> string \<Rightarrow> string" where
  "make_doc_id E tenant_id filename = take 8 (md5_hexdigest E (doc_key tenant_id filename))"

text \<open>
  \<open>upload_document\<close> returns the \<open>DocumentInfo\<close> or the exception that leaves it, and
  the service state after the call. It has no \<open>await\<close>, so a call runs as one step.
\<close>

definition upload_document ::
  "'ix env \<Rightarrow> 'ix service \<Rightarrow> string \<Rightarrow> string \<Rightarrow> string \<Rightarrow> (exn + document_info) \<times> 'ix service" where
  "upload_document E s tenant_id filename content =
     (let doc_id = make_doc_id E tenant_id filename;
          doc_type = detect_document_type filename content;
          pages = estimate_pages content;
          doc = \<lparr>doc_text = content,
                 doc_metadata = \<lparr>md_filename = Some filename, md_document_type = Some doc_type,
                                 md_tenant_id = Some tenant_id, md_doc_id = Some doc_id,
                                 md_pages = Some pages\<rparr>\<rparr>;
          s1 = (if tenant_indices s tenant_id = None
                then s\<lparr>tenant_indices := (tenant_indices s)(tenant_id \<mapsto> empty_index E),
                       tenant_documents := (tenant_documents s)(tenant_id \<mapsto> [])\<rparr>
                else s)
      in case tenant_indices s1 tenant_id of
           None \<Rightarrow> (Inl (KeyError tenant_id), s1)
         | Some ix \<Rightarrow>
             (case index_insert E ix doc of
                (Some msg, ix') \<Rightarrow>
                  (Inl (ProviderFailure msg),
                   s1\<lparr>tenant_indices := (tenant_indices s1)(tenant_id \<mapsto> ix')\<rparr>)
              | (None, ix') \<Rightarrow>
                  (let s2 = s1\<lparr>tenant_indices := (tenant_indices s1)(tenant_id \<mapsto> ix')\<rparr>;
                       doc_info = \<lparr>info_id = doc_id, info_name = filename, info_type = doc_type,
                                   info_pages = pages, info_status = ''ready''\<rparr>
                   in case tenant_documents s2 tenant_id of
                        None \<Rightarrow> (Inl (KeyError tenant_id), s2)
                      | Some docs \<Rightarrow>
                          (Inr doc_info,
                           s2\<lparr>tenant_documents :=
                                (tenant_documents s2)(tenant_id \<mapsto> docs @ [doc_info])\<rparr>))))"

definition get_documents :: "'ix service \<Rightarrow> string \<Rightarrow> document_info list" where
  "get_documents s tenant_id =
     (case tenant_documents s tenant_id of None \<Rightarrow> [] | Some docs \<Rightarrow> docs)"

section \<open>Citations\<close>

text \<open>
  The value of \<open>node.score if hasattr(node, 'score') else 0.8\<close>: the default only when
  the attribute is absent, otherwise the attribute's value, \<open>None\<close> or a number.
\<close>

definition confidence_arg :: "node \<Rightarrow> real option" where
  "confidence_arg n =
     (case node_score n of NoScoreAttr \<Rightarrow> Some 0.8 | ScoreNone \<Rightarrow> None | Score sc \<Rightarrow> Some sc)"

text \<open>\<open>Citation(document=..., page=..., document_type=..., confidence=...)\<close> for one node:
  the citation, or the validation error that the constructor raises.\<close>

definition make_citation :: "node \<Rightarrow> validation_error + citation" where
  "make_citation n =
     (let metadata = node_metadata n
      in case confidence_arg n of
           None \<Rightarrow> Inl ConfidenceNone
         | Some conf \<Rightarrow>
             Inr \<lparr>document = (case md_filename metadata of None \<Rightarrow> ''Unknown'' | Some f \<Rightarrow> f),
                  page = min (case md_pages metadata of None \<Rightarrow> 1 | Some p \<Rightarrow> p)
                             (max 1 (int (length (node_text n)) div 500)),
                  document_type =
                    (case md_document_type metadata of None \<Rightarrow> ''Document'' | Some t \<Rightarrow> t),
                  cite_confidence = conf\<rparr>)"

text \<open>The \<open>for node in source_nodes\<close> loop, with the list built so far; an exception
  raised while a citation is built leaves the loop.\<close>

fun extract_citations_loop ::
  "node list \<Rightarrow> citation list \<Rightarrow> validation_error + citation list" where
  "extract_citations_loop [] cs = Inr cs"
| "extract_citations_loop (n # rest) cs =
     (case make_citation n of
        Inl v \<Rightarrow> Inl v
      | Inr c \<Rightarrow> extract_citations_loop rest (cs @ [c]))"

definition extract_citations :: "node list \<Rightarrow> string \<Rightarrow> validation_error + citation list" where
  "extract_citations nodes tenant_id = extract_citations_loop nodes []"

section \<open>Query\<close>

definition query :: "'ix env \<Rightarrow> 'ix service \<Rightarrow> string \<Rightarrow> string \<Rightarrow> query_response" where
  "query E s tenant_id question =
     (case tenant_indices s tenant_id of
        None \<Rightarrow>
          \<lparr>answer = ''I don't have any documents to search. Please upload your business documents first.'',
           citations = [],
           confidence = 0.0,
           has_knowledge_gap = True,
           suggestions = Some [''Business Documents'', ''Policy Manual'']\<rparr>
      | Some ix \<Rightarrow>
          (case query_engine E ix question of
             Inl e \<Rightarrow>
               \<lparr>answer = ''I encountered an error while searching your documents: '' @ e,
                citations = [],
                confidence = 0.0,
                has_knowledge_gap = True,
                suggestions = Some [''Please try rephrasing your question'']\<rparr>
           | Inr r \<Rightarrow>
               (case extract_citations (source_nodes r) tenant_id of
                  Inl v \<Rightarrow>
                    \<lparr>answer = ''I encountered an error while searching your documents: ''
                                @ validation_message E v,
                     citations = [],
                     confidence = 0.0,
                     has_knowledge_gap = True,
                     suggestions = Some [''Please try rephrasing your question'']\<rparr>
                | Inr cs \<Rightarrow>
                    (let (has_gap, sugg) = detect_knowledge_gap question (response r);
                         conf = (if cs \<noteq> [] \<and> length (response r) > 50 then 0.9 else 0.3)
                     in \<lparr>answer = response r,
                         citations = cs,
                         confidence = conf,
                         has_knowledge_gap = has_gap,
                         suggestions = (if has_gap then Some sugg else None)\<rparr>))))"

section \<open>Sequences of calls\<close>

datatype request =
  Upload string string string
| Query string string
| Documents string

datatype reply =
  Uploaded "exn + document_info"
| Answered query_response
| Listed "document_info list"

fun request_tenant :: "request \<Rightarrow> string" where
  "request_tenant (Upload tenant_id filename content) = tenant_id"
| "request_tenant (Query tenant_id question) = tenant_id"
| "request_tenant (Documents tenant_id) = tenant_id"

fun handle :: "'ix env \<Rightarrow> 'ix service \<Rightarrow> request \<Rightarrow> reply \<times> 'ix service" where
  "handle E s (Upload tenant_id filename content) =
     (let (res, s') = upload_document E s tenant_id filename content in (Uploaded res, s'))"
| "handle E s (Query tenant_id question) = (Answered (query E s tenant_id question), s)"
| "handle E s (Documents tenant_id) = (Listed (get_documents s tenant_id), s)"

fun run :: "'ix env \<Rightarrow> 'ix service \<Rightarrow> request list \<Rightarrow> reply list \<times> 'ix service" where
  "run E s [] = ([], s)"
| "run E s (r # rs) =
     (let (out, s') = handle E s r;
          (outs, s'') = run E s' rs
      in (out # outs, s''))"

section \<open>Providers for the worked examples\<close>

text \<open>
  \<open>list_env\<close> keeps the inserted documents in a list, never fails, retrieves the first
  three documents as nodes with score 0.5 and answers with the text of the first one.
  Its digest function is a stand-in: no example depends on the digest.
  \<open>insert_down_env\<close> is the same provider with an index insertion that raises,
  \<open>query_down_env\<close> the same provider with a query engine that raises, and
  \<open>unscored_env\<close> the same provider with a query engine whose nodes have the score
  \<open>None\<close>. The text of the validation error is a stand-in as well.
\<close>

definition list_env :: "document list env" where
  "list_env =
     \<lparr>md5_hexdigest = (\<lambda>x. x),
      empty_index = [],
      index_insert = (\<lambda>ix d. (None, ix @ [d])),
      query_engine = (\<lambda>ix q.
        Inr \<lparr>response = (case ix of [] \<Rightarrow> ''No information.'' | d # ds \<Rightarrow> doc_text d),
             source_nodes =
               map (\<lambda>d. \<lparr>node_metadata = doc_metadata d, node_text = doc_text d,
                          node_score = Score 0.5\<rparr>) (take 3 ix)\<rparr>),
      validation_message = (\<lambda>v. ''1 validation error for Citation'')\<rparr>"

definition insert_down_env :: "document list env" where
  "insert_down_env = list_env\<lparr>index_insert := (\<lambda>ix d. (Some ''connection refused'', ix))\<rparr>"

definition query_down_env :: "document list env" where
  "query_down_env = list_env\<lparr>query_engine := (\<lambda>ix q. Inl ''connection refused'')\<rparr>"

definition unscored_env :: "document list env" where
  "unscored_env =
     list_env\<lparr>query_engine := (\<lambda>ix q.
        Inr \<lparr>response = (case ix of [] \<Rightarrow> ''No information.'' | d # ds \<Rightarrow> doc_text d),
             source_nodes =
               map (\<lambda>d. \<lparr>node_metadata = doc_metadata d, node_text = doc_text d,
                          node_score = ScoreNone\<rparr>) (take 3 ix)\<rparr>)\<rparr>"

definition sample_document :: document where
  "sample_document =
     \<lparr>doc_text = ''Loans above 5000 need approvals from two officers.'',
      doc_metadata = \<lparr>md_filename = Some ''loan_policy.txt'', md_document_type = Some ''Policy'',
                      md_tenant_id = Some ''t1'', md_doc_id = Some ''0a1b2c3d'',
                      md_pages = Some 1\<rparr>\<rparr>"

definition sample_service :: "document list service" where
  "sample_service =
     \<lparr>tenant_indices = [''t1'' \<mapsto> [sample_document]],
      tenant_documents =
        [''t1'' \<mapsto> [\<lparr>info_id = ''0a1b2c3d'', info_name = ''loan_policy.txt'',
                        info_type = ''Policy'', info_pages = 1, info_status = ''ready''\<rparr>]]\<rparr>"


definition unscored_node :: node where
  "unscored_node =
     \<lparr>node_metadata = doc_metadata sample_document, node_text = doc_text sample_document,
      node_score = ScoreNone\<rparr>"

definition sample_requests :: "request list" where
  "sample_requests =
     [Upload ''t1'' ''loan_policy.txt'' ''Loans need two approvals.'',
      Query ''t2'' ''Who approves loans?'',
      Upload ''t2'' ''handbook.txt'' ''Welcome to the team.'',
      Documents ''t1'',
      Documents ''t2'']"

section \<open>The classifier as the specification words it\<close>

text \<open>
  The specification gives the classifier as a table of rules tried in order, the first
  rule with a matching keyword deciding the category, where a keyword matches a text
  when some substring of the text equals it up to letter case.
\<close>

datatype inspected = Filename | Content

definition classify_rules :: "(inspected \<times> string list \<times> string) list" where
  "classify_rules =
     [(Filename, [''policy'', ''procedure'', ''rule''], ''Policy''),
      (Filename, [''handbook'', ''manual'', ''guide''], ''Handbook''),
      (Filename, [''finance'', ''financial'', ''budget'', ''revenue''], ''Finance''),
      (Content, [''loan'', ''credit'', ''lending''], ''Policy''),
      (Content, [''onboard'', ''training'', ''employee''], ''Handbook'')]"

definition contains_ignoring_case :: "string \<Rightarrow> string \<Rightarrow> bool" where
  "contains_ignoring_case s keyword \<longleftrightarrow> (\<exists>t. sublist t s \<and> lower t = lower keyword)"

definition classify_spec :: "string \<Rightarrow> string \<Rightarrow> string" where
  "classify_spec filename content =
     (case find (\<lambda>(part, keywords, category).
                   \<exists>keyword \<in> set keywords.
                     contains_ignoring_case
                       (case part of Filename \<Rightarrow> filename | Content \<Rightarrow> content) keyword)
                classify_rules of
        Some (part, keywords, category) \<Rightarrow> category
      | None \<Rightarrow> ''Document'')"

section \<open>What one tenant can see\<close>

text \<open>
  Two service states are the same for a tenant when they hold the same index and the
  same catalog for it. \<open>replies_for t rs outs\<close> picks from the replies \<open>outs\<close> to the
  requests \<open>rs\<close> those that answer a request of tenant \<open>t\<close>.
\<close>

definition same_tenant_state :: "string \<Rightarrow> 'ix service \<Rightarrow> 'ix service \<Rightarrow> bool" where
  "same_tenant_state t s s' \<longleftrightarrow>
     tenant_indices s t = tenant_indices s' t \<and> tenant_documents s t = tenant_documents s' t"

definition replies_for :: "string \<Rightarrow> request list \<Rightarrow> reply list \<Rightarrow> reply list" where
  "replies_for t rs outs = map snd (filter (\<lambda>(r, out). request_tenant r = t) (zip rs outs))"

section \<open>The citation loop\<close>



lemma make_citation_confidence:
  "node_score n = NoScoreAttr \<Longrightarrow> \<exists>c. make_citation n = Inr c \<and> cite_confidence c = 0.8"
  "node_score n = Score sc \<Longrightarrow> \<exists>c. make_citation n = Inr c \<and> cite_confidence c = sc"
  "node_score n = ScoreNone \<Longrightarrow> make_citation n = Inl ConfidenceNone"
  by (simp_all add: make_citation_def confidence_arg_def Let_def)





section \<open>The branches of query\<close>

lemma query_no_index:
  assumes "tenant_indices s tenant_id = None"
  shows "query E s tenant_id question =
     \<lparr>answer = ''I don't have any documents to search. Please upload your business documents first.'',
      citations = [],
      confidence = 0.0,
      has_knowledge_gap = True,
      suggestions = Some [''Business Documents'', ''Policy Manual'']\<rparr>"
  using assms by (simp add: query_def)

lemma query_normal:
  assumes "tenant_indices s tenant_id = Some ix" and "query_engine E ix question = Inr r"
    and "extract_citations (source_nodes r) tenant_id = Inr cs"
  shows "query E s tenant_id question =
     \<lparr>answer = response r,
      citations = cs,
      confidence = (if cs \<noteq> [] \<and> length (response r) > 50 then 0.9 else 0.3),
      has_knowledge_gap = fst (detect_knowledge_gap question (response r)),
      suggestions = (if fst (detect_knowledge_gap question (response r))
                     then Some (snd (detect_knowledge_gap question (response r))) else None)\<rparr>"
  using assms by (simp add: query_def Let_def split: prod.splits)

text \<open>
  C3. For a tenant that has an index, when the query engine raises an exception with
  message \<open>e\<close>, query returns a response (it raises nothing): the answer is the fixed
  prefix followed by \<open>e\<close>, with no citations, confidence 0.0, a knowledge gap, and the
  single suggestion to rephrase.
\<close>

theorem query_provider_failure:
  assumes "tenant_indices s tenant_id = Some ix" and "query_engine E ix question = Inl e"
  shows "query E s tenant_id question =
     \<lparr>answer = ''I encountered an error while searching your documents: '' @ e,
      citations = [],
      confidence = 0.0,
      has_knowledge_gap = True,
      suggestions = Some [''Please try rephrasing your question'']\<rparr>"
  using assms by (simp add: query_def)

theorem query_provider_failure_witness:
  "tenant_indices sample_service ''t1'' = Some [sample_document] \<and>
   query_engine query_down_env [sample_document] ''What is our loan policy?'' =
     Inl ''connection refused'' \<and>
   query query_down_env sample_service ''t1'' ''What is our loan policy?'' =
     \<lparr>answer = ''I encountered an error while searching your documents: connection refused'',
      citations = [],
      confidence = 0.0,
      has_knowledge_gap = True,
      suggestions = Some [''Please try rephrasing your question'']\<rparr>"
proof -
  have h1: "tenant_indices sample_service ''t1'' = Some [sample_document]"
    by (simp add: sample_service_def)
  have h2: "query_engine query_down_env [sample_document] ''What is our loan policy?'' =
              Inl ''connection refused''"
    by (simp add: query_down_env_def list_env_def)
  from h1 h2 query_provider_failure [OF h1 h2] show ?thesis
    by simp
qed

text \<open>
  C4. On the normal path (the tenant has an index, the query engine returns and the
  citations are built), the confidence of the response is 0.9 when its citation list is
  non-empty and its answer is longer than 50 characters, and 0.3 otherwise; an answer of
  exactly 50 characters gives 0.3 whatever the citations are.
\<close>

theorem query_confidence:
  assumes "tenant_indices s tenant_id = Some ix" and "query_engine E ix question = Inr r"
    and "extract_citations (source_nodes r) tenant_id = Inr cs"
  shows "answer (query E s tenant_id question) = response r \<and>
         citations (query E s tenant_id question) = cs \<and>
         confidence (query E s tenant_id question) =
           (if citations (query E s tenant_id question) \<noteq> [] \<and>
               length (answer (query E s tenant_id question)) > 50
            then 0.9 else 0.3) \<and>
         (length (answer (query E s tenant_id question)) = 50 \<longrightarrow>
            confidence (query E s tenant_id question) = 0.3)"
  by (simp add: query_normal [OF assms])

theorem query_confidence_witness:
  "tenant_indices sample_service ''t1'' = Some [sample_document] \<and>
   query_engine list_env [sample_document] ''What is our loan policy?'' =
     Inr \<lparr>response = ''Loans above 5000 need approvals from two officers.'',
          source_nodes = [\<lparr>node_metadata = doc_metadata sample_document,
                           node_text = doc_text sample_document, node_score = Score 0.5\<rparr>]\<rparr> \<and>
   extract_citations
     [\<lparr>node_metadata = doc_metadata sample_document,
       node_text = doc_text sample_document, node_score = Score 0.5\<rparr>] ''t1'' =
     Inr [\<lparr>document = ''loan_policy.txt'', page = 1, document_type = ''Policy'',
           cite_confidence = 0.5\<rparr>] \<and>
   citations (query list_env sample_service ''t1'' ''What is our loan policy?'') \<noteq> [] \<and>
   length (answer (query list_env sample_service ''t1'' ''What is our loan policy?'')) = 50 \<and>
   confidence (query list_env sample_service ''t1'' ''What is our loan policy?'') = 0.3"
proof -
  have h1: "tenant_indices sample_service ''t1'' = Some [sample_document]"
    by (simp add: sample_service_def)
  have h2: "query_engine list_env [sample_document] ''What is our loan policy?'' =
     Inr \<lparr>response = ''Loans above 5000 need approvals from two officers.'',
          source_nodes = [\<lparr>node_metadata = doc_metadata sample_document,
                           node_text = doc_text sample_document, node_score = Score 0.5\<rparr>]\<rparr>"
    by (simp add: list_env_def sample_document_def)
  have h3: "extract_citations
     (source_nodes
        \<lparr>response = ''Loans above 5000 need approvals from two officers.'',
         source_nodes = [\<lparr>node_metadata = doc_metadata sample_document,
                          node_text = doc_text sample_document, node_score = Score 0.5\<rparr>]\<rparr>)
     ''t1'' =
     Inr [\<lparr>document = ''loan_policy.txt'', page = 1, document_type = ''Policy'',
           cite_confidence = 0.5\<rparr>]"
    by (simp add: extract_citations_def make_citation_def confidence_arg_def
          sample_document_def Let_def)
  from h1 h2 h3 query_confidence [OF h1 h2 h3] show ?thesis
    by simp
qed

section \<open>Citations\<close>




text \<open>
  C7 does not hold of the code. Line 90 tests \<open>hasattr(node, 'score')\<close>, so the default
  0.8 is taken only when the attribute is absent. A retrieved node that was given no
  score has the attribute, with the value \<open>None\<close>: the value passed as confidence is
  \<open>None\<close>, building the citation raises, and \<open>query\<close> answers with its error response and
  no citation at all.
\<close>

theorem unscored_node_raises:
  "node_score unscored_node = ScoreNone \<and>
   confidence_arg unscored_node = None \<and>
   make_citation unscored_node = Inl ConfidenceNone \<and>
   extract_citations [unscored_node] ''t1'' = Inl ConfidenceNone \<and>
   query_engine unscored_env [sample_document] ''What is our loan policy?'' =
     Inr \<lparr>response = ''Loans above 5000 need approvals from two officers.'',
          source_nodes = [unscored_node]\<rparr> \<and>
   query unscored_env sample_service ''t1'' ''What is our loan policy?'' =
     \<lparr>answer = ''I encountered an error while searching your documents: 1 validation error for Citation'',
      citations = [],
      confidence = 0.0,
      has_knowledge_gap = True,
      suggestions = Some [''Please try rephrasing your question'']\<rparr>"
  by (simp add: unscored_node_def unscored_env_def list_env_def sample_service_def
        sample_document_def query_def extract_citations_def make_citation_def
        confidence_arg_def Let_def)

section \<open>Substrings and letter case\<close>

lemma startswith_prefix: "startswith s w \<longleftrightarrow> prefix w s"
  by (induction s w rule: startswith.induct) auto

lemma str_in_sublist: "str_in w s \<longleftrightarrow> sublist w s"
  by (induction s) (auto simp: startswith_prefix sublist_Cons_right)

lemma str_in_append: "str_in w (ps @ w @ ss)"
  by (simp add: str_in_sublist)

lemma str_in_lower: "str_in w s \<Longrightarrow> str_in (lower w) (lower s)"
  by (simp add: str_in_sublist lower_def map_mono_sublist)

lemma contains_ignoring_case_code:
  "contains_ignoring_case s keyword \<longleftrightarrow> str_in (lower keyword) (lower s)"
proof
  assume "contains_ignoring_case s keyword"
  then obtain t where "sublist t s" and "lower t = lower keyword"
    by (auto simp: contains_ignoring_case_def)
  then show "str_in (lower keyword) (lower s)"
    using str_in_lower [of t s] by (simp add: str_in_sublist)
next
  assume "str_in (lower keyword) (lower s)"
  then have "sublist (lower keyword) (map lower_char s)"
    by (simp add: str_in_sublist lower_def)
  then obtain t where "sublist t s" and "lower keyword = map lower_char t"
    using sublist_map_rightE [of "lower keyword" lower_char s] by blast
  then show "contains_ignoring_case s keyword"
    by (auto simp: contains_ignoring_case_def lower_def)
qed

lemma lower_keywords:
  "lower ''policy'' = ''policy''" "lower ''procedure'' = ''procedure''" "lower ''rule'' = ''rule''"
  "lower ''handbook'' = ''handbook''" "lower ''manual'' = ''manual''" "lower ''guide'' = ''guide''"
  "lower ''finance'' = ''finance''" "lower ''financial'' = ''financial''"
  "lower ''budget'' = ''budget''" "lower ''revenue'' = ''revenue''"
  "lower ''loan'' = ''loan''" "lower ''credit'' = ''credit''" "lower ''lending'' = ''lending''"
  "lower ''onboard'' = ''onboard''" "lower ''training'' = ''training''"
  "lower ''employee'' = ''employee''"
  by (simp_all add: lower_def lower_char_def)

section \<open>The classifier\<close>

lemma detect_document_type_refines:
  "detect_document_type filename content = classify_spec filename content"
  by (simp add: detect_document_type_def classify_spec_def classify_rules_def any_in_def
        contains_ignoring_case_code lower_keywords Let_def)

lemma detect_document_type_policy:
  "detect_document_type (ps @ ''policy'' @ ss) content = ''Policy''"
proof -
  have "str_in (lower ''policy'') (lower (ps @ ''policy'' @ ss))"
    by (rule str_in_lower) (rule str_in_append)
  then show ?thesis
    by (simp add: detect_document_type_def any_in_def lower_keywords Let_def)
qed

text \<open>
  C5. \<open>detect_document_type\<close> is a function of the filename and the content that
  computes what the six rules of the specification give, tried in their order with
  keywords matched as substrings up to letter case; its value is always one of Policy,
  Handbook, Finance and Document; and every filename that contains \<open>policy\<close> is
  classified as Policy, whatever the content.
\<close>

theorem detect_document_type_rules:
  "detect_document_type filename content = classify_spec filename content \<and>
   detect_document_type filename content \<in> {''Policy'', ''Handbook'', ''Finance'', ''Document''} \<and>
   detect_document_type (ps @ ''policy'' @ ss) content = ''Policy''"
proof (intro conjI)
  show "detect_document_type filename content = classify_spec filename content"
    by (rule detect_document_type_refines)
  show "detect_document_type filename content
          \<in> {''Policy'', ''Handbook'', ''Finance'', ''Document''}"
    by (simp add: detect_document_type_def Let_def)
  show "detect_document_type (ps @ ''policy'' @ ss) content = ''Policy''"
    by (rule detect_document_type_policy)
qed

theorem detect_document_type_rules_witness:
  "detect_document_type ''Budget_2024.txt'' ''Revenue grew; every employee was trained.'' =
     classify_spec ''Budget_2024.txt'' ''Revenue grew; every employee was trained.'' \<and>
   classify_spec ''Budget_2024.txt'' ''Revenue grew; every employee was trained.'' = ''Finance'' \<and>
   detect_document_type ''travel_policy_guide.txt'' ''Revenue grew; every employee was trained.'' =
     ''Policy''"
proof -
  have e: "detect_document_type ''Budget_2024.txt'' ''Revenue grew; every employee was trained.'' =
             ''Finance''"
    by (simp add: detect_document_type_def any_in_def lower_def lower_char_def)
  from e
    detect_document_type_rules [of "''Budget_2024.txt''"
      "''Revenue grew; every employee was trained.''" "''travel_''" "''_guide.txt''"]
  show ?thesis by simp
qed

section \<open>Suggestions\<close>

text \<open>
  C9, as stated, fails: the keywords \<open>loan\<close>, \<open>credit\<close> and \<open>lending\<close> are tried before
  \<open>training\<close>, so a question that contains both \<open>training\<close> and \<open>loan\<close> gets the loan
  suggestions.
\<close>

theorem suggestions_training_counterexample:
  "str_in ''training'' (lower ''What training do loan officers need?'') \<and>
   snd (detect_knowledge_gap ''What training do loan officers need?'' ''Officers take a course.'')
     = [''Loan Policy Document'', ''Credit Guidelines'', ''Lending Procedures''] \<and>
   snd (detect_knowledge_gap ''What training do loan officers need?'' ''Officers take a course.'')
     \<noteq> [''Employee Handbook'', ''Training Manual'', ''HR Policies'']"
  by (simp add: detect_knowledge_gap_def any_in_def lower_def lower_char_def gap_indicators_def)

text \<open>
  C9, amended. For every question whose lower-cased text contains \<open>training\<close> and none
  of \<open>loan\<close>, \<open>credit\<close> and \<open>lending\<close>, the suggestions are exactly Employee Handbook,
  Training Manual and HR Policies, for every answer text.
\<close>

theorem suggestions_training:
  assumes "str_in ''training'' (lower question)"
    and "\<not> any_in [''loan'', ''credit'', ''lending''] (lower question)"
  shows "snd (detect_knowledge_gap question answer_text) =
           [''Employee Handbook'', ''Training Manual'', ''HR Policies'']"
  using assms by (simp add: detect_knowledge_gap_def any_in_def Let_def)

theorem suggestions_training_witness:
  "str_in ''training'' (lower ''Which Training is mandatory?'') \<and>
   \<not> any_in [''loan'', ''credit'', ''lending''] (lower ''Which Training is mandatory?'') \<and>
   snd (detect_knowledge_gap ''Which Training is mandatory?'' ''No information.'') =
     [''Employee Handbook'', ''Training Manual'', ''HR Policies'']"
proof -
  have h1: "str_in ''training'' (lower ''Which Training is mandatory?'')"
    by (simp add: lower_def lower_char_def)
  have h2: "\<not> any_in [''loan'', ''credit'', ''lending''] (lower ''Which Training is mandatory?'')"
    by (simp add: any_in_def lower_def lower_char_def)
  from h1 h2 suggestions_training [OF h1 h2, of "''No information.''"] show ?thesis
    by simp
qed

section \<open>Document ids\<close>

lemma upload_document_id:
  "fst (upload_document E s tenant_id filename content) = Inr d \<Longrightarrow>
   info_id d = make_doc_id E tenant_id filename"
  by (auto simp: upload_document_def Let_def split: option.splits prod.splits if_splits)

text \<open>
  C10. The hashed string does not determine the pair of tenant id and filename: the
  distinct pairs \<open>("a_b", "c")\<close> and \<open>("a", "b_c")\<close> give the same string, hence the same
  document id whatever the digest function is; neither the hashed string nor the
  document id is an injective function of the pair.
\<close>

theorem doc_id_not_injective:
  "(''a_b'', ''c'') \<noteq> (''a'', ''b_c'') \<and>
   doc_key ''a_b'' ''c'' = doc_key ''a'' ''b_c'' \<and>
   \<not> inj (\<lambda>(tenant_id, filename). doc_key tenant_id filename) \<and>
   make_doc_id E ''a_b'' ''c'' = make_doc_id E ''a'' ''b_c'' \<and>
   \<not> inj (\<lambda>(tenant_id, filename). make_doc_id E tenant_id filename)"
proof -
  have k: "doc_key ''a_b'' ''c'' = doc_key ''a'' ''b_c''"
    by (simp add: doc_key_def)
  have ne: "(''a_b'', ''c'') \<noteq> (''a'', ''b_c'')"
    by simp
  have i: "make_doc_id E ''a_b'' ''c'' = make_doc_id E ''a'' ''b_c''"
    by (simp add: make_doc_id_def k)
  have "\<not> inj (\<lambda>(tenant_id, filename). doc_key tenant_id filename)"
    using k ne by (auto simp: inj_def)
  moreover have "\<not> inj (\<lambda>(tenant_id, filename). make_doc_id E tenant_id filename)"
    using i ne by (auto simp: inj_def)
  ultimately show ?thesis
    using k ne i by blast
qed

section \<open>Existence of a corpus\<close>

text \<open>
  C8 does not hold of the code. \<open>upload_document\<close> stores the empty index for a new
  tenant before it calls the index's \<open>insert\<close>; when that call raises, the exception
  leaves \<open>upload_document\<close> and the entry stays. Here the first upload of tenant \<open>t1\<close>
  fails, and afterwards \<open>t1\<close> has an index, an empty catalog, and its queries reach the
  query engine instead of getting the "no documents" response.
\<close>

theorem failed_upload_leaves_corpus:
  "tenant_indices (init :: document list service) ''t1'' = None \<and>
   fst (upload_document insert_down_env init ''t1'' ''loan_policy.txt'' (doc_text sample_document))
     = Inl (ProviderFailure ''connection refused'') \<and>
   tenant_indices
     (snd (upload_document insert_down_env init ''t1'' ''loan_policy.txt'' (doc_text sample_document)))
     ''t1'' = Some [] \<and>
   get_documents
     (snd (upload_document insert_down_env init ''t1'' ''loan_policy.txt'' (doc_text sample_document)))
     ''t1'' = [] \<and>
   answer (query insert_down_env
     (snd (upload_document insert_down_env init ''t1'' ''loan_policy.txt'' (doc_text sample_document)))
     ''t1'' ''What is our loan policy?'') = ''No information.''"
  by (simp add: upload_document_def init_def insert_down_env_def list_env_def Let_def
        get_documents_def query_def extract_citations_def split_def)

text \<open>
  C1 does not hold of the code either, by the same defect. After an upload that failed
  no successful ingestion has created anything for tenant \<open>t1\<close>, and its catalog is
  empty; yet \<open>t1\<close> has an entry in \<open>tenant_indices\<close>, so \<open>query\<close> does not return the
  fixed "no documents" response: it asks the query engine.
\<close>

theorem query_after_failed_upload:
  "fst (run insert_down_env init
          [Upload ''t1'' ''loan_policy.txt'' (doc_text sample_document),
           Documents ''t1'',
           Query ''t1'' ''What is our loan policy?'']) =
     [Uploaded (Inl (ProviderFailure ''connection refused'')),
      Listed [],
      Answered
        \<lparr>answer = ''No information.'',
         citations = [],
         confidence = 0.3,
         has_knowledge_gap = True,
         suggestions =
           Some [''Loan Policy Document'', ''Credit Guidelines'', ''Lending Procedures'']\<rparr>] \<and>
   query insert_down_env
     (snd (upload_document insert_down_env init ''t1'' ''loan_policy.txt''
             (doc_text sample_document)))
     ''t1'' ''What is our loan policy?'' \<noteq>
     \<lparr>answer = ''I don't have any documents to search. Please upload your business documents first.'',
      citations = [],
      confidence = 0.0,
      has_knowledge_gap = True,
      suggestions = Some [''Business Documents'', ''Policy Manual'']\<rparr>"
  by (simp add: upload_document_def init_def insert_down_env_def list_env_def Let_def
        get_documents_def query_def extract_citations_def split_def
        detect_knowledge_gap_def gap_indicators_def any_in_def lower_def lower_char_def)

section \<open>Tenant isolation\<close>

lemma upload_frame:
  "tenant_id \<noteq> t \<Longrightarrow>
   same_tenant_state t s (snd (upload_document E s tenant_id filename content))"
  by (simp add: upload_document_def same_tenant_state_def Let_def
        split: option.split prod.split)

lemma upload_local:
  assumes "same_tenant_state t s s'"
  shows "fst (upload_document E s t f c) = fst (upload_document E s' t f c) \<and>
     same_tenant_state t (snd (upload_document E s t f c)) (snd (upload_document E s' t f c))"
proof -
  from assms have i: "tenant_indices s' t = tenant_indices s t"
    and d: "tenant_documents s' t = tenant_documents s t"
    by (simp_all add: same_tenant_state_def)
  show ?thesis
    by (simp add: upload_document_def same_tenant_state_def Let_def i d
          split: option.split prod.split)
qed

lemma handle_frame:
  "request_tenant r \<noteq> t \<Longrightarrow> same_tenant_state t s (snd (handle E s r))"
proof (cases r)
  case (Upload tenant_id filename content)
  assume "request_tenant r \<noteq> t"
  with Upload have "tenant_id \<noteq> t" by simp
  from upload_frame [OF this, of s E filename content] Upload show ?thesis
    by (simp add: split_def Let_def)
qed (simp_all add: same_tenant_state_def)

lemma handle_local:
  assumes "same_tenant_state (request_tenant r) s s'"
  shows "fst (handle E s r) = fst (handle E s' r) \<and>
     same_tenant_state (request_tenant r) (snd (handle E s r)) (snd (handle E s' r))"
proof (cases r)
  case (Upload tenant_id filename content)
  with assms have "same_tenant_state tenant_id s s'" by simp
  from upload_local [OF this, of E filename content] Upload show ?thesis
    by (simp add: split_def Let_def)
next
  case (Query tenant_id question)
  with assms show ?thesis
    by (simp add: same_tenant_state_def query_def)
next
  case (Documents tenant_id)
  with assms show ?thesis
    by (simp add: same_tenant_state_def get_documents_def)
qed

lemma run_Cons:
  "run E s (r # rs) =
     (fst (handle E s r) # fst (run E (snd (handle E s r)) rs),
      snd (run E (snd (handle E s r)) rs))"
  by (simp add: split_def Let_def)

lemma run_projection:
  "same_tenant_state t s s' \<Longrightarrow>
     replies_for t rs (fst (run E s rs)) =
       fst (run E s' (filter (\<lambda>r. request_tenant r = t) rs)) \<and>
     same_tenant_state t (snd (run E s rs))
       (snd (run E s' (filter (\<lambda>r. request_tenant r = t) rs)))"
proof (induction rs arbitrary: s s')
  case Nil
  then show ?case by (simp add: replies_for_def)
next
  case (Cons r rs)
  show ?case
  proof (cases "request_tenant r = t")
    case True
    with Cons.prems have st: "same_tenant_state (request_tenant r) s s'" by simp
    from handle_local [OF st, of E] True
    have out: "fst (handle E s r) = fst (handle E s' r)"
      and nxt: "same_tenant_state t (snd (handle E s r)) (snd (handle E s' r))" by simp_all
    from Cons.IH [OF nxt] out True show ?thesis
      by (simp add: replies_for_def run_Cons del: run.simps)
  next
    case False
    from handle_frame [OF False, of s E] Cons.prems
    have nxt: "same_tenant_state t (snd (handle E s r)) s'"
      by (simp add: same_tenant_state_def)
    from Cons.IH [OF nxt] False show ?thesis
      by (simp add: replies_for_def run_Cons del: run.simps)
  qed
qed

lemma run_frame:
  "\<forall>r \<in> set rs. request_tenant r \<noteq> t \<Longrightarrow> same_tenant_state t s (snd (run E s rs))"
proof (induction rs arbitrary: s)
  case Nil
  show ?case by (simp add: same_tenant_state_def)
next
  case (Cons r rs)
  then have "request_tenant r \<noteq> t" and rest: "\<forall>r \<in> set rs. request_tenant r \<noteq> t"
    by simp_all
  from handle_frame [OF this(1), of s E] Cons.IH [OF rest, of "snd (handle E s r)"]
  show ?case
    by (simp add: run_Cons same_tenant_state_def del: run.simps)
qed

text \<open>
  C2. Take any sequence of uploads, queries and listings, from any service state.
  If none of the requests is made for tenant \<open>t2\<close>, then the index, the catalog and the
  document listing of \<open>t2\<close> are afterwards what they were before: nothing ingested for
  another tenant appears in them. And for every tenant \<open>t1\<close>, the replies to the requests
  of \<open>t1\<close>, and the index, catalog and listing of \<open>t1\<close> afterwards, are those of a run of
  the requests of \<open>t1\<close> alone from any state that holds the same index and catalog for
  \<open>t1\<close>: they depend neither on the requests nor on the entries of another tenant.
\<close>

theorem cross_tenant_isolation:
  "((\<forall>r \<in> set rs. request_tenant r \<noteq> t2) \<longrightarrow>
      tenant_indices (snd (run E s rs)) t2 = tenant_indices s t2 \<and>
      tenant_documents (snd (run E s rs)) t2 = tenant_documents s t2 \<and>
      get_documents (snd (run E s rs)) t2 = get_documents s t2) \<and>
   (same_tenant_state t1 s s' \<longrightarrow>
      replies_for t1 rs (fst (run E s rs)) =
        fst (run E s' (filter (\<lambda>r. request_tenant r = t1) rs)) \<and>
      same_tenant_state t1 (snd (run E s rs))
        (snd (run E s' (filter (\<lambda>r. request_tenant r = t1) rs))) \<and>
      get_documents (snd (run E s rs)) t1 =
        get_documents (snd (run E s' (filter (\<lambda>r. request_tenant r = t1) rs))) t1)"
proof (intro conjI impI)
  assume other: "\<forall>r \<in> set rs. request_tenant r \<noteq> t2"
  from run_frame [OF other, of s E]
  show "tenant_indices (snd (run E s rs)) t2 = tenant_indices s t2"
    and "tenant_documents (snd (run E s rs)) t2 = tenant_documents s t2"
    and "get_documents (snd (run E s rs)) t2 = get_documents s t2"
    by (simp_all add: same_tenant_state_def get_documents_def)
next
  assume same: "same_tenant_state t1 s s'"
  from run_projection [OF same, of rs E]
  show "replies_for t1 rs (fst (run E s rs)) =
          fst (run E s' (filter (\<lambda>r. request_tenant r = t1) rs))"
    and "same_tenant_state t1 (snd (run E s rs))
          (snd (run E s' (filter (\<lambda>r. request_tenant r = t1) rs)))"
    and "get_documents (snd (run E s rs)) t1 =
          get_documents (snd (run E s' (filter (\<lambda>r. request_tenant r = t1) rs))) t1"
    by (simp_all add: same_tenant_state_def get_documents_def)
qed

theorem cross_tenant_isolation_witness:
  "map request_tenant (filter (\<lambda>r. request_tenant r = ''t1'') sample_requests) =
     [''t1'', ''t1''] \<and>
   get_documents
     (snd (run list_env init (filter (\<lambda>r. request_tenant r = ''t1'') sample_requests))) ''t2'' = [] \<and>
   same_tenant_state ''t2'' (init :: document list service) sample_service \<and>
   get_documents (snd (run list_env init sample_requests)) ''t2'' =
     [\<lparr>info_id = ''t2_handb'', info_name = ''handbook.txt'', info_type = ''Handbook'',
       info_pages = 1, info_status = ''ready''\<rparr>] \<and>
   replies_for ''t2'' sample_requests (fst (run list_env init sample_requests)) =
     fst (run list_env sample_service
            [Query ''t2'' ''Who approves loans?'',
             Upload ''t2'' ''handbook.txt'' ''Welcome to the team.'',
             Documents ''t2''])"
proof -
  have h1: "\<forall>r \<in> set (filter (\<lambda>r. request_tenant r = ''t1'') sample_requests).
              request_tenant r \<noteq> ''t2''"
    by simp
  have m: "map request_tenant (filter (\<lambda>r. request_tenant r = ''t1'') sample_requests) =
             [''t1'', ''t1'']"
    by (simp add: sample_requests_def)
  have h2: "same_tenant_state ''t2'' (init :: document list service) sample_service"
    by (simp add: same_tenant_state_def init_def sample_service_def)
  have f: "filter (\<lambda>r. request_tenant r = ''t2'') sample_requests =
             [Query ''t2'' ''Who approves loans?'',
              Upload ''t2'' ''handbook.txt'' ''Welcome to the team.'',
              Documents ''t2'']"
    by (simp add: sample_requests_def)
  have e: "get_documents
             (snd (run list_env sample_service
                [Query ''t2'' ''Who approves loans?'',
                 Upload ''t2'' ''handbook.txt'' ''Welcome to the team.'',
                 Documents ''t2''])) ''t2'' =
           [\<lparr>info_id = ''t2_handb'', info_name = ''handbook.txt'', info_type = ''Handbook'',
             info_pages = 1, info_status = ''ready''\<rparr>]"
    by (simp add: sample_service_def list_env_def query_def upload_document_def
          get_documents_def make_doc_id_def doc_key_def detect_document_type_def any_in_def
          lower_def lower_char_def estimate_pages_def Let_def split_def)
  have e0: "get_documents (init :: document list service) ''t2'' = []"
    by (simp add: get_documents_def init_def)
  from cross_tenant_isolation
         [of "filter (\<lambda>r. request_tenant r = ''t1'') sample_requests" "''t2''" list_env init,
          THEN conjunct1, THEN mp, OF h1]
    cross_tenant_isolation
         [of sample_requests _ list_env init "''t2''" sample_service,
          THEN conjunct2, THEN mp, OF h2]
    m h2 e e0
  show ?thesis
    by (simp only: f simp_thms)
qed

end
